theory Spec2Isabelle
  imports Complex_Main "HOL-Library.Word"
begin

section \<open>YOLO WebSocket detection server (server.py)\<close>

text \<open>
  A shallow embedding of \<^verbatim>\<open>YOLODetectionServer\<close>: the frame pipeline
  \<^verbatim>\<open>process_frame\<close>, the per-connection loop \<^verbatim>\<open>handle_client\<close> and the
  message-size limit that \<^verbatim>\<open>start\<close> hands to the WebSocket library.
  The image codec (PIL, numpy, OpenCV), the detector (ultralytics), \<^verbatim>\<open>json.dumps\<close> and
  the clock are libraries outside the repository: they are parameters of the model, each
  returning either the exception it raises or its value. Console output (\<^verbatim>\<open>print\<close>) is
  not modelled.
\<close>

subsection \<open>Exceptions\<close>

text \<open>
  An exception value is an instance of a class derived from Python's \<^verbatim>\<open>Exception\<close>,
  kept as its class and the text \<^verbatim>\<open>str(e)\<close>. Only the classes that the program's
  handlers or the interpreter's own operations tell apart are named; every other class is
  \<open>OtherException\<close>.
\<close>

datatype exn_class = ConnectionClosed | TypeError | IndexError | KeyError | OtherException

datatype py_exn = Exn exn_class string

fun exn_class_of :: "py_exn \<Rightarrow> exn_class" where
  "exn_class_of (Exn c text) = c"

fun exn_str :: "py_exn \<Rightarrow> string" where
  "exn_str (Exn c text) = text"

subsection \<open>Values\<close>

type_synonym byte = "8 word"

text \<open>A WebSocket message is a binary frame (\<^verbatim>\<open>bytes\<close>) or a text frame (\<^verbatim>\<open>str\<close>).\<close>

datatype ws_message = Binary "byte list" | Text string

fun message_size :: "ws_message \<Rightarrow> nat" where
  "message_size (Binary bs) = length bs"
| "message_size (Text t) = length t"

text \<open>
  The values that \<^verbatim>\<open>process_frame\<close> builds and \<^verbatim>\<open>json.dumps\<close> encodes. A
  \<^verbatim>\<open>dict\<close> keeps its keys in insertion order, so it is an association list. The number
  type \<open>'n\<close> stands for the floating-point numbers of the source; the model only uses its
  subtraction.
\<close>

datatype 'n pyval =
    Str string
  | Num 'n
  | List "'n pyval list"
  | Dict "(string \<times> 'n pyval) list"

text \<open>
  One element of \<^verbatim>\<open>results.boxes\<close>: \<^verbatim>\<open>box.xyxyn[0]\<close> (normalised corners
  \<open>(x1, y1, x2, y2)\<close>), \<^verbatim>\<open>int(box.cls[0])\<close> and \<^verbatim>\<open>box.conf[0]\<close>.
\<close>

record 'n box =
  xyxyn :: "'n \<times> 'n \<times> 'n \<times> 'n"
  cls :: int
  conf :: 'n

record 'n results =
  boxes :: "'n box list"
  names :: "int \<rightharpoonup> string"

text \<open>
  A connection object, as the set \<^verbatim>\<open>self.clients\<close> sees it: its identity. Two
  connections are two different objects.
\<close>

type_synonym websocket = nat

record 'model server =
  port :: nat
  model :: 'model
  clients :: "websocket set"

text \<open>
  The libraries \<^verbatim>\<open>process_frame\<close> and \<^verbatim>\<open>handle_client\<close> call:
  \<^verbatim>\<open>Image.open(BytesIO(b))\<close>, \<^verbatim>\<open>np.array\<close>,
  \<^verbatim>\<open>cv2.cvtColor(_, cv2.COLOR_RGB2BGR)\<close>, the call of the model object
  \<^verbatim>\<open>self.model(frame, verbose=False)\<close>, \<^verbatim>\<open>json.dumps\<close> and the \<^verbatim>\<open>repr\<close> of a
  connection object.
\<close>

record ('pil, 'arr, 'model, 'n) env =
  image_open :: "byte list \<Rightarrow> py_exn + 'pil"
  np_array :: "'pil \<Rightarrow> py_exn + 'arr"
  cvt_color :: "'arr \<Rightarrow> py_exn + 'arr"
  model_call :: "'model \<Rightarrow> 'arr \<Rightarrow> py_exn + 'n results list"
  json_dumps :: "'n pyval \<Rightarrow> string"
  ws_repr :: "websocket \<Rightarrow> string"

subsection \<open>Text of an integer key\<close>

text \<open>\<^verbatim>\<open>str(KeyError(k))\<close> is \<^verbatim>\<open>repr(k)\<close>: the decimal digits of an integer key.\<close>

definition digit_char :: "nat \<Rightarrow> char" where
  "digit_char d = ''0123456789'' ! d"

function str_nat :: "nat \<Rightarrow> string" where
  "str_nat n = (if n < 10 then [digit_char n] else str_nat (n div 10) @ [digit_char (n mod 10)])"
  by pat_completeness auto
termination
  by (relation "measure id") auto

declare str_nat.simps [simp del]

definition str_int :: "int \<Rightarrow> string" where
  "str_int i = (if i < 0 then CHR ''-'' # str_nat (nat (- i)) else str_nat (nat i))"

subsection \<open>process_frame\<close>

text \<open>
  Lines 65 to 68, "Decode JPEG to numpy array". \<^verbatim>\<open>BytesIO\<close> refuses a \<^verbatim>\<open>str\<close>
  with a TypeError.
\<close>

definition bytes_io_type_error :: py_exn where
  "bytes_io_type_error =
     Exn TypeError (''a bytes-like object is required, not '' @ [CHR 0x27] @ ''str'' @ [CHR 0x27])"

definition decode :: "('pil, 'arr, 'model, 'n) env \<Rightarrow> ws_message \<Rightarrow> py_exn + 'arr" where
  "decode env image_bytes =
     (case image_bytes of
        Text t \<Rightarrow> Inl bytes_io_type_error
      | Binary bs \<Rightarrow>
          (case image_open env bs of
             Inl e \<Rightarrow> Inl e
           | Inr pil_image \<Rightarrow>
               (case np_array env pil_image of
                  Inl e \<Rightarrow> Inl e
                | Inr frame \<Rightarrow> cvt_color env frame)))"

text \<open>Lines 70 and 71, "Run YOLO detection": the call of the model, then \<^verbatim>\<open>[0]\<close>.\<close>

definition detect :: "('pil, 'arr, 'model, 'n) env \<Rightarrow> 'model \<Rightarrow> 'arr \<Rightarrow> py_exn + 'n results" where
  "detect env m frame =
     (case model_call env m frame of
        Inl e \<Rightarrow> Inl e
      | Inr [] \<Rightarrow> Inl (Exn IndexError ''list index out of range'')
      | Inr (r # rs) \<Rightarrow> Inr r)"

text \<open>Lines 78 to 87: the \<^verbatim>\<open>detection\<close> dict of one box, given its class name.\<close>

definition detection_of :: "string \<Rightarrow> ('n::minus) box \<Rightarrow> 'n pyval" where
  "detection_of class_name b =
     (case xyxyn b of (x1, y1, x2, y2) \<Rightarrow>
        Dict [(''className'', Str class_name),
              (''confidence'', Num (conf b)),
              (''x'', Num x1),
              (''y'', Num y1),
              (''width'', Num (x2 - x1)),
              (''height'', Num (y2 - y1))])"

text \<open>
  Lines 74 to 89, "Parse detections": the loop over \<^verbatim>\<open>results.boxes\<close>, appending to
  \<^verbatim>\<open>detections\<close>. \<^verbatim>\<open>results.names[k]\<close> raises KeyError for a class index that
  the label table does not hold.
\<close>

fun parse_detections ::
  "(int \<rightharpoonup> string) \<Rightarrow> ('n::minus) box list \<Rightarrow> 'n pyval list \<Rightarrow> py_exn + 'n pyval list" where
  "parse_detections nms [] detections = Inr detections"
| "parse_detections nms (b # bs) detections =
     (case nms (cls b) of
        None \<Rightarrow> Inl (Exn KeyError (str_int (cls b)))
      | Some class_name \<Rightarrow> parse_detections nms bs (detections @ [detection_of class_name b]))"

text \<open>
  The \<^verbatim>\<open>try\<close> block, lines 63 to 101. The two readings of \<^verbatim>\<open>time.time()\<close> are the
  pair \<open>(start_time, end_time)\<close>.
\<close>

definition try_block ::
  "('pil, 'arr, 'model, 'n::minus) env \<Rightarrow> 'model server \<Rightarrow> ws_message \<Rightarrow> 'n \<times> 'n \<Rightarrow> py_exn + 'n pyval" where
  "try_block env self image_bytes clock =
     (case clock of (start_time, end_time) \<Rightarrow>
        (case decode env image_bytes of
           Inl e \<Rightarrow> Inl e
         | Inr frame \<Rightarrow>
             (case detect env (model self) frame of
                Inl e \<Rightarrow> Inl e
              | Inr res \<Rightarrow>
                  (case parse_detections (names res) (boxes res) [] of
                     Inl e \<Rightarrow> Inl e
                   | Inr detections \<Rightarrow>
                       Inr (Dict [(''status'', Str ''success''),
                                  (''detections'', List detections),
                                  (''inference_time'', Num (end_time - start_time))])))))"

text \<open>
  \<^verbatim>\<open>process_frame\<close>: the \<^verbatim>\<open>try\<close> block with its handler
  \<^verbatim>\<open>except Exception as e\<close> (lines 103 to 109). The server object is passed through, so
  that what the call does to it can be stated.
\<close>

definition error_response :: "py_exn \<Rightarrow> 'n pyval" where
  "error_response e =
     Dict [(''status'', Str ''error''),
           (''message'', Str (exn_str e)),
           (''detections'', List [])]"

definition process_frame ::
  "('pil, 'arr, 'model, 'n::minus) env \<Rightarrow> 'model server \<Rightarrow> ws_message \<Rightarrow> 'n \<times> 'n
     \<Rightarrow> 'n pyval \<times> 'model server" where
  "process_frame env self image_bytes clock =
     (case try_block env self image_bytes clock of
        Inr response \<Rightarrow> (response, self)
      | Inl e \<Rightarrow> (error_response e, self))"

text \<open>Python's \<^verbatim>\<open>d[key]\<close> on the dicts above, for reading a field of a response.\<close>

fun field :: "string \<Rightarrow> 'n pyval \<Rightarrow> 'n pyval option" where
  "field k (Dict kvs) = map_of kvs k"
| "field k v = None"

fun keys :: "'n pyval \<Rightarrow> string list" where
  "keys (Dict kvs) = map fst kvs"
| "keys v = []"

subsection \<open>handle_client\<close>

text \<open>
  What the outside world does during one turn of the loop \<^verbatim>\<open>async for message in websocket\<close>:
  the message the iterator yields, the two clock readings taken while it is processed, and
  whether \<^verbatim>\<open>websocket.send\<close> raises (\<open>None\<close>: the response was sent).
  A connection is a finite list of such turns and the way the iterator ends after them:
  \<open>None\<close> when the peer closed the connection normally (the loop ends), \<open>Some e\<close> when
  reading raises \<open>e\<close>. A connection that never ends is not a list; its handler does not return.
\<close>

record 'n exchange =
  incoming :: ws_message
  clock_readings :: "'n \<times> 'n"
  send_raises :: "py_exn option"

text \<open>
  The effects of a handler in the order they happen: the two updates of
  \<^verbatim>\<open>self.clients\<close>, each message read and each response written.
\<close>

datatype event = Added websocket | Received ws_message | Sent string | Removed websocket

fun mutates_clients :: "event \<Rightarrow> bool" where
  "mutates_clients (Added w) = True"
| "mutates_clients (Removed w) = True"
| "mutates_clients (Received m) = False"
| "mutates_clients (Sent t) = False"

fun on_wire :: "event \<Rightarrow> bool" where
  "on_wire (Received m) = True"
| "on_wire (Sent t) = True"
| "on_wire (Added w) = False"
| "on_wire (Removed w) = False"

text \<open>
  Lines 40 to 45, the loop. It returns the server object, the events and the exception
  that leaves the loop, if any.
\<close>

fun serve_loop ::
  "('pil, 'arr, 'model, 'n::minus) env \<Rightarrow> 'model server \<Rightarrow> 'n exchange list \<Rightarrow> py_exn option
     \<Rightarrow> 'model server \<times> event list \<times> py_exn option" where
  "serve_loop env self [] ending = (self, [], ending)"
| "serve_loop env self (x # xs) ending =
     (case process_frame env self (incoming x) (clock_readings x) of
        (response, self1) \<Rightarrow>
          (case send_raises x of
             Some e \<Rightarrow> (self1, [Received (incoming x)], Some e)
           | None \<Rightarrow>
               (case serve_loop env self1 xs ending of
                  (self2, evs, raised) \<Rightarrow>
                    (self2, Received (incoming x) # Sent (json_dumps env response) # evs, raised))))"

text \<open>
  Lines 47 and 48: \<^verbatim>\<open>except websockets.exceptions.ConnectionClosed\<close> swallows an exception
  of that class and lets any other one pass.
\<close>

definition except_connection_closed :: "py_exn option \<Rightarrow> py_exn option" where
  "except_connection_closed raised =
     (case raised of
        None \<Rightarrow> None
      | Some e \<Rightarrow> if exn_class_of e = ConnectionClosed then None else Some e)"

text \<open>
  Lines 37 to 50. The \<^verbatim>\<open>finally\<close> clause runs on every path, and
  \<^verbatim>\<open>set.remove\<close> raises KeyError for an element that is not in the set. The result
  is the server object, the events, and the exception that leaves the handler, if any.
\<close>

definition handle_client ::
  "('pil, 'arr, 'model, 'n::minus) env \<Rightarrow> 'model server \<Rightarrow> websocket \<Rightarrow> 'n exchange list
     \<Rightarrow> py_exn option \<Rightarrow> 'model server \<times> event list \<times> py_exn option" where
  "handle_client env self websocket xs ending =
     (case serve_loop env (self\<lparr>clients := insert websocket (clients self)\<rparr>) xs ending of
        (self2, evs, raised) \<Rightarrow>
          if websocket \<in> clients self2
          then (self2\<lparr>clients := clients self2 - {websocket}\<rparr>,
                Added websocket # evs @ [Removed websocket],
                except_connection_closed raised)
          else (self2, Added websocket # evs,
                Some (Exn KeyError (ws_repr env websocket))))"

subsection \<open>start\<close>

text \<open>Line 124: \<^verbatim>\<open>max_size=10*1024*1024\<close>.\<close>

definition max_size :: nat where
  "max_size = 10 * 1024 * 1024"

text \<open>The exception the iterator raises at a message that is too big.\<close>

definition message_too_big :: py_exn where
  "message_too_big = Exn ConnectionClosed ''message too big''"

text \<open>
  Modelled from the spec: the transport layer, that is the size check of the WebSocket
  library behind \<^verbatim>\<open>max_size\<close>, which is not in the repository. Section 5 of the
  specification: an incoming frame is capped by a maximum message size, and "frames exceeding
  it are rejected at the transport layer before reaching the pipeline"; section 8: the
  rejection is at the level of the connection. So the transport hands the handler the
  messages of the peer up to the first one larger than the limit, and there the iterator
  raises ConnectionClosed.
\<close>

fun transport :: "nat \<Rightarrow> 'n exchange list \<Rightarrow> py_exn option \<Rightarrow> 'n exchange list \<times> py_exn option" where
  "transport limit [] ending = ([], ending)"
| "transport limit (x # xs) ending =
     (if limit < message_size (incoming x) then ([], Some message_too_big)
      else (case transport limit xs ending of (ys, e) \<Rightarrow> (x # ys, e)))"

text \<open>
  Lines 120 to 125, for one accepted connection:
  \<^verbatim>\<open>websockets.serve(self.handle_client, ..., max_size=10*1024*1024)\<close> runs the handler
  on what the transport lets through.
\<close>

definition serve ::
  "('pil, 'arr, 'model, 'n::minus) env \<Rightarrow> 'model server \<Rightarrow> websocket \<Rightarrow> 'n exchange list
     \<Rightarrow> py_exn option \<Rightarrow> 'model server \<times> event list \<times> py_exn option" where
  "serve env self websocket peer_messages peer_ending =
     (case transport max_size peer_messages peer_ending of
        (xs, ending) \<Rightarrow> handle_client env self websocket xs ending)"

text \<open>
  What a turn of the loop that completes puts on the wire (lines 40, 42 and 45): the
  message read, then the encoded response to it.
\<close>

definition exchange_events ::
  "('pil, 'arr, 'model, 'n::minus) env \<Rightarrow> 'model server \<Rightarrow> 'n exchange \<Rightarrow> event list" where
  "exchange_events env self x =
     [Received (incoming x),
      Sent (json_dumps env (fst (process_frame env self (incoming x) (clock_readings x))))]"

text \<open>
  The turns whose response was sent: those up to the first failing
  \<^verbatim>\<open>send\<close>, and that turn itself, if there is one.
\<close>

definition answered :: "'n exchange list \<Rightarrow> 'n exchange list" where
  "answered xs = takeWhile (\<lambda>x. send_raises x = None) xs"

definition unanswered :: "'n exchange list \<Rightarrow> 'n exchange list" where
  "unanswered xs = take 1 (dropWhile (\<lambda>x. send_raises x = None) xs)"

text \<open>The exception that ends the loop: that of the failing \<^verbatim>\<open>send\<close>, or else that of the iterator.\<close>

definition loop_exit :: "'n exchange list \<Rightarrow> py_exn option \<Rightarrow> py_exn option" where
  "loop_exit xs ending = (case unanswered xs of [] \<Rightarrow> ending | x # ys \<Rightarrow> send_raises x)"

text \<open>Reading a response as a client does.\<close>

fun detections_of :: "'n pyval \<Rightarrow> 'n pyval list" where
  "detections_of r = (case field ''detections'' r of Some (List ds) \<Rightarrow> ds | _ \<Rightarrow> [])"

fun num_field :: "string \<Rightarrow> 'n pyval \<Rightarrow> 'n option" where
  "num_field k d = (case field k d of Some (Num v) \<Rightarrow> Some v | _ \<Rightarrow> None)"

subsection \<open>A concrete environment\<close>

text \<open>
  Stand-ins for the libraries, to run the model on concrete frames: an empty buffer does not
  decode; a frame of one byte shows two objects; for a frame of two bytes the detector
  returns a box whose corners are in the wrong order; on any longer frame it fails.
\<close>

definition example_results :: "real results" where
  "example_results =
     \<lparr>boxes = [\<lparr>xyxyn = (1/4, 1/4, 3/4, 1/2), cls = 0, conf = 7/8\<rparr>,
               \<lparr>xyxyn = (0, 1/2, 1/2, 1), cls = 1, conf = 1/2\<rparr>],
      names = [0 \<mapsto> ''person'', 1 \<mapsto> ''bicycle'']\<rparr>"

definition example_results_reversed :: "real results" where
  "example_results_reversed =
     \<lparr>boxes = [\<lparr>xyxyn = (1/2, 1/2, 1/4, 1/4), cls = 0, conf = 7/8\<rparr>],
      names = [0 \<mapsto> ''person'']\<rparr>"

definition example_dumps :: "real pyval \<Rightarrow> string" where
  "example_dumps r = (case field ''status'' r of Some (Str st) \<Rightarrow> st | _ \<Rightarrow> [])"

definition example_env :: "(byte list, byte list, unit, real) env" where
  "example_env =
     \<lparr>image_open = (\<lambda>bs. if bs = [] then Inl (Exn OtherException ''cannot identify image file'')
                          else Inr bs),
      np_array = Inr,
      cvt_color = Inr,
      model_call = (\<lambda>m frame.
         if length frame = 1 then Inr [example_results]
         else if length frame = 2 then Inr [example_results_reversed]
         else Inl (Exn OtherException ''inference failed'')),
      json_dumps = example_dumps,
      ws_repr = (\<lambda>w. ''websocket'')\<rparr>"

definition example_server :: "unit server" where
  "example_server = \<lparr>port = 8765, model = (), clients = {}\<rparr>"

definition example_exchange :: "byte list \<Rightarrow> real exchange" where
  "example_exchange bs = \<lparr>incoming = Binary bs, clock_readings = (0, 1), send_raises = None\<rparr>"

text \<open>
  The same environment with a codec whose exception carries no text, as Python's
  \<^verbatim>\<open>MemoryError()\<close> does: \<^verbatim>\<open>str(e)\<close> is the empty string.
\<close>

definition example_env_no_text :: "(byte list, byte list, unit, real) env" where
  "example_env_no_text = example_env\<lparr>image_open := (\<lambda>bs. Inl (Exn OtherException []))\<rparr>"

text \<open>A frame of 10 MiB and one byte.\<close>

definition example_oversized :: "real exchange" where
  "example_oversized = example_exchange (replicate (10 * 1024 * 1024 + 1) 0)"

lemmas example_simps = process_frame_def try_block_def decode_def detect_def example_env_def
  example_server_def example_results_def example_results_reversed_def detection_of_def
  error_response_def example_exchange_def example_dumps_def handle_client_def
  except_connection_closed_def

section \<open>Properties of process_frame\<close>

lemma parse_detections_Inr:
  "parse_detections nms bs acc = Inr ds \<Longrightarrow>
     ds = acc @ map (\<lambda>b. detection_of (the (nms (cls b))) b) bs \<and> (\<forall>b\<in>set bs. nms (cls b) \<noteq> None)"
proof (induction bs arbitrary: acc)
  case Nil
  then show ?case by simp
next
  case (Cons b bs)
  from Cons.prems obtain class_name where
    nm: "nms (cls b) = Some class_name" and
    rest: "parse_detections nms bs (acc @ [detection_of class_name b]) = Inr ds"
    by (auto split: option.splits)
  from Cons.IH [OF rest] nm show ?case by simp
qed

lemma process_frame_self: "snd (process_frame env self m clk) = self"
  by (simp add: process_frame_def split: sum.splits)

lemma process_frame_error:
  "try_block env self m clk = Inl e \<Longrightarrow> fst (process_frame env self m clk) = error_response e"
  by (simp add: process_frame_def)

lemma try_block_decode_fails:
  "decode env m = Inl e \<Longrightarrow> try_block env self m clk = Inl e"
  by (simp add: try_block_def split: prod.splits)

lemma try_block_detect_fails:
  "decode env m = Inr frame \<Longrightarrow> detect env (model self) frame = Inl e \<Longrightarrow>
     try_block env self m clk = Inl e"
  by (simp add: try_block_def split: prod.splits)

lemma try_block_parse_fails:
  "decode env m = Inr frame \<Longrightarrow> detect env (model self) frame = Inr res \<Longrightarrow>
   parse_detections (names res) (boxes res) [] = Inl e \<Longrightarrow>
     try_block env self m clk = Inl e"
  by (simp add: try_block_def split: prod.splits)

lemma try_block_Inr:
  "try_block env self m clk = Inr r \<Longrightarrow>
     \<exists>frame res ds. decode env m = Inr frame \<and> detect env (model self) frame = Inr res \<and>
        parse_detections (names res) (boxes res) [] = Inr ds \<and>
        r = Dict [(''status'', Str ''success''), (''detections'', List ds),
                  (''inference_time'', Num (snd clk - fst clk))]"
  by (auto simp add: try_block_def split: prod.splits sum.splits)

lemma process_frame_cases:
  "(\<exists>e. try_block env self m clk = Inl e \<and> fst (process_frame env self m clk) = error_response e) \<or>
   (\<exists>frame res. decode env m = Inr frame \<and> detect env (model self) frame = Inr res \<and>
      (\<forall>b\<in>set (boxes res). names res (cls b) \<noteq> None) \<and>
      fst (process_frame env self m clk) =
        Dict [(''status'', Str ''success''),
              (''detections'', List (map (\<lambda>b. detection_of (the (names res (cls b))) b) (boxes res))),
              (''inference_time'', Num (snd clk - fst clk))])"
proof (cases "try_block env self m clk")
  case (Inl e)
  then show ?thesis
    by (simp add: process_frame_error)
next
  case (Inr r)
  then obtain frame res ds where
    d: "decode env m = Inr frame" "detect env (model self) frame = Inr res"
       "parse_detections (names res) (boxes res) [] = Inr ds"
       "r = Dict [(''status'', Str ''success''), (''detections'', List ds),
                  (''inference_time'', Num (snd clk - fst clk))]"
    using try_block_Inr by blast
  from parse_detections_Inr [OF d(3)] have
    "ds = map (\<lambda>b. detection_of (the (names res (cls b))) b) (boxes res)"
    "\<forall>b\<in>set (boxes res). names res (cls b) \<noteq> None"
    by simp_all
  with d Inr show ?thesis
    by (simp add: process_frame_def)
qed

lemma process_frame_success:
  assumes "field ''status'' (fst (process_frame env self m clk)) = Some (Str ''success'')"
  shows "\<exists>frame res. decode env m = Inr frame \<and> detect env (model self) frame = Inr res \<and>
           (\<forall>b\<in>set (boxes res). names res (cls b) \<noteq> None) \<and>
           fst (process_frame env self m clk) =
             Dict [(''status'', Str ''success''),
                   (''detections'', List (map (\<lambda>b. detection_of (the (names res (cls b))) b) (boxes res))),
                   (''inference_time'', Num (snd clk - fst clk))]"
  using process_frame_cases [of env self m clk] assms
  by (auto simp: error_response_def)

lemma field_detection_of:
  "xyxyn b = (x1, y1, x2, y2) \<Longrightarrow>
     field ''className'' (detection_of nm b) = Some (Str nm) \<and>
     field ''confidence'' (detection_of nm b) = Some (Num (conf b)) \<and>
     field ''x'' (detection_of nm b) = Some (Num x1) \<and>
     field ''y'' (detection_of nm b) = Some (Num y1) \<and>
     field ''width'' (detection_of nm b) = Some (Num (x2 - x1)) \<and>
     field ''height'' (detection_of nm b) = Some (Num (y2 - y1))"
  by (simp add: detection_of_def)

text \<open>
  C1. Whatever the frame, an exception raised while decoding it, while running the detector
  or while building the detection list is caught by the handler of \<^verbatim>\<open>process_frame\<close>:
  the call returns the response with status "error", the text \<^verbatim>\<open>str(e)\<close> of the
  exception as its message and an empty detection list, and leaves the server as it was.
  \<^verbatim>\<open>process_frame\<close> has no other outcome than a response.
\<close>

theorem process_frame_catches_every_exception:
  assumes "decode env m = Inl e \<or>
           (\<exists>frame. decode env m = Inr frame \<and>
              (detect env (model self) frame = Inl e \<or>
               (\<exists>res. detect env (model self) frame = Inr res \<and>
                      parse_detections (names res) (boxes res) [] = Inl e)))"
  shows "process_frame env self m clk =
           (Dict [(''status'', Str ''error''),
                  (''message'', Str (exn_str e)),
                  (''detections'', List [])], self)"
proof -
  from assms have "try_block env self m clk = Inl e"
    by (auto intro: try_block_decode_fails try_block_detect_fails try_block_parse_fails)
  then show ?thesis
    by (simp add: process_frame_def error_response_def)
qed

theorem process_frame_catches_every_exception_witness:
  "decode example_env (Binary []) = Inl (Exn OtherException ''cannot identify image file'') \<and>
   process_frame example_env example_server (Binary []) (0, 1) =
     (Dict [(''status'', Str ''error''),
            (''message'', Str ''cannot identify image file''),
            (''detections'', List [])], example_server)"
proof -
  have d: "decode example_env (Binary []) = Inl (Exn OtherException ''cannot identify image file'')"
    by (simp add: decode_def example_env_def)
  then have "process_frame example_env example_server (Binary []) (0, 1) =
     (Dict [(''status'', Str ''error''),
            (''message'', Str (exn_str (Exn OtherException ''cannot identify image file''))),
            (''detections'', List [])], example_server)"
    by (intro process_frame_catches_every_exception) simp
  with d show ?thesis by simp
qed

text \<open>
  C3. A response with status "success" comes from a frame that decoded and on which the
  detector returned some results; its detection list has one entry for each box the detector
  returned, in order, and the entry of box \<open>i\<close> has width \<open>x2 - x1\<close>, height
  \<open>y2 - y1\<close> and the confidence of that box, which therefore lies between 0 and 1 when the
  detector's confidence does.
\<close>

theorem success_response_maps_every_detection:
  fixes env :: "('pil, 'arr, 'model, 'n::{minus,ord,zero,one}) env"
  assumes "field ''status'' (fst (process_frame env self m clk)) = Some (Str ''success'')"
  shows "\<exists>frame res ds.
           decode env m = Inr frame \<and> detect env (model self) frame = Inr res \<and>
           field ''detections'' (fst (process_frame env self m clk)) = Some (List ds) \<and>
           length ds = length (boxes res) \<and>
           (\<forall>i<length (boxes res).
              (case xyxyn (boxes res ! i) of (x1, y1, x2, y2) \<Rightarrow>
                 field ''width'' (ds ! i) = Some (Num (x2 - x1)) \<and>
                 field ''height'' (ds ! i) = Some (Num (y2 - y1))) \<and>
              field ''confidence'' (ds ! i) = Some (Num (conf (boxes res ! i))) \<and>
              (0 \<le> conf (boxes res ! i) \<and> conf (boxes res ! i) \<le> 1 \<longrightarrow>
                 (\<exists>c. field ''confidence'' (ds ! i) = Some (Num c) \<and> 0 \<le> c \<and> c \<le> 1)))"
proof -
  from process_frame_success [OF assms] obtain frame res where
    d: "decode env m = Inr frame" "detect env (model self) frame = Inr res" and
    r: "fst (process_frame env self m clk) =
          Dict [(''status'', Str ''success''),
                (''detections'', List (map (\<lambda>b. detection_of (the (names res (cls b))) b) (boxes res))),
                (''inference_time'', Num (snd clk - fst clk))]"
    by blast
  let ?ds = "map (\<lambda>b. detection_of (the (names res (cls b))) b) (boxes res)"
  have f: "field ''detections'' (fst (process_frame env self m clk)) = Some (List ?ds)"
    by (simp add: r)
  have len: "length ?ds = length (boxes res)"
    by simp
  have each: "(case xyxyn (boxes res ! i) of (x1, y1, x2, y2) \<Rightarrow>
                 field ''width'' (?ds ! i) = Some (Num (x2 - x1)) \<and>
                 field ''height'' (?ds ! i) = Some (Num (y2 - y1))) \<and>
              field ''confidence'' (?ds ! i) = Some (Num (conf (boxes res ! i))) \<and>
              (0 \<le> conf (boxes res ! i) \<and> conf (boxes res ! i) \<le> 1 \<longrightarrow>
                 (\<exists>c. field ''confidence'' (?ds ! i) = Some (Num c) \<and> 0 \<le> c \<and> c \<le> 1))"
    if "i < length (boxes res)" for i
  proof -
    obtain x1 y1 x2 y2 where c: "xyxyn (boxes res ! i) = (x1, y1, x2, y2)"
      by (cases "xyxyn (boxes res ! i)") auto
    from that have nth: "?ds ! i = detection_of (the (names res (cls (boxes res ! i)))) (boxes res ! i)"
      by simp
    show ?thesis
      unfolding nth using field_detection_of [OF c] c by simp
  qed
  from d f len each show ?thesis
    by blast
qed

theorem success_response_maps_every_detection_witness:
  "field ''status'' (fst (process_frame example_env example_server (Binary [1]) (0, 1))) =
     Some (Str ''success'') \<and>
   length (detections_of (fst (process_frame example_env example_server (Binary [1]) (0, 1)))) = 2 \<and>
   field ''width'' (detections_of (fst (process_frame example_env example_server (Binary [1]) (0, 1))) ! 0) =
     Some (Num (1/2)) \<and>
   field ''height'' (detections_of (fst (process_frame example_env example_server (Binary [1]) (0, 1))) ! 0) =
     Some (Num (1/4)) \<and>
   (\<exists>c. field ''confidence''
          (detections_of (fst (process_frame example_env example_server (Binary [1]) (0, 1))) ! 1) =
          Some (Num c) \<and> 0 \<le> c \<and> c \<le> 1)"
proof -
  let ?r = "fst (process_frame example_env example_server (Binary [1]) (0, 1))"
  have h: "field ''status'' ?r = Some (Str ''success'')"
    by (simp add: example_simps)
  from success_response_maps_every_detection [OF h] obtain frame res ds where
    dec: "decode example_env (Binary [1]) = Inr frame" and
    det: "detect example_env (model example_server) frame = Inr res" and
    f: "field ''detections'' ?r = Some (List ds)" and
    len: "length ds = length (boxes res)" and
    each: "\<forall>i<length (boxes res).
              (case xyxyn (boxes res ! i) of (x1, y1, x2, y2) \<Rightarrow>
                 field ''width'' (ds ! i) = Some (Num (x2 - x1)) \<and>
                 field ''height'' (ds ! i) = Some (Num (y2 - y1))) \<and>
              field ''confidence'' (ds ! i) = Some (Num (conf (boxes res ! i))) \<and>
              (0 \<le> conf (boxes res ! i) \<and> conf (boxes res ! i) \<le> 1 \<longrightarrow>
                 (\<exists>c. field ''confidence'' (ds ! i) = Some (Num c) \<and> 0 \<le> c \<and> c \<le> 1))"
    by (elim exE conjE)
  from dec have "frame = [1]"
    by (simp add: decode_def example_env_def)
  with det have res: "res = example_results"
    by (simp add: detect_def example_env_def)
  from f have ds: "detections_of ?r = ds"
    by simp
  from each [rule_format, of 0] have
    "field ''width'' (ds ! 0) = Some (Num (1/2))" "field ''height'' (ds ! 0) = Some (Num (1/4))"
    by (simp_all add: res example_results_def)
  moreover have "\<exists>c. field ''confidence'' (ds ! 1) = Some (Num c) \<and> 0 \<le> c \<and> c \<le> 1"
  proof -
    have i: "1 < length (boxes res)"
      by (simp add: res example_results_def)
    have c: "0 \<le> conf (boxes res ! 1) \<and> conf (boxes res ! 1) \<le> 1"
      by (simp add: res example_results_def)
    from each [rule_format, OF i] have
      "0 \<le> conf (boxes res ! 1) \<and> conf (boxes res ! 1) \<le> 1 \<longrightarrow>
         (\<exists>c. field ''confidence'' (ds ! 1) = Some (Num c) \<and> 0 \<le> c \<and> c \<le> 1)"
      by (elim conjE)
    from this c show ?thesis
      by (rule mp)
  qed
  moreover from len have "length ds = 2"
    by (simp add: res example_results_def)
  ultimately show ?thesis
    using h unfolding ds by (intro conjI) assumption+
qed

section \<open>Properties of handle_client\<close>

lemma process_frame_ignores_clients:
  "fst (process_frame env (self\<lparr>clients := c\<rparr>) m clk) = fst (process_frame env self m clk)"
  by (simp add: process_frame_def try_block_def split: sum.splits prod.splits)

lemma exchange_events_ignores_clients:
  "exchange_events env (self\<lparr>clients := c\<rparr>) = exchange_events env self"
  by (rule ext) (simp add: exchange_events_def process_frame_ignores_clients)

lemma answered_Cons:
  "answered (x # xs) = (if send_raises x = None then x # answered xs else [])"
  by (simp add: answered_def)

lemma unanswered_Cons:
  "unanswered (x # xs) = (if send_raises x = None then unanswered xs else [x])"
  by (simp add: unanswered_def)

lemma unanswered_Nil: "unanswered [] = []"
  by (simp add: unanswered_def)

lemma answered_Nil: "answered [] = []"
  by (simp add: answered_def)

lemma length_unanswered: "length (unanswered xs) \<le> 1"
  by (simp add: unanswered_def)

lemma answered_all: "\<forall>x\<in>set xs. send_raises x = None \<Longrightarrow> answered xs = xs \<and> unanswered xs = []"
  by (simp add: answered_def unanswered_def)

lemma serve_loop_eq:
  "serve_loop env self xs ending =
     (self,
      concat (map (exchange_events env self) (answered xs)) @
        map (\<lambda>x. Received (incoming x)) (unanswered xs),
      loop_exit xs ending)"
proof (induction xs)
  case Nil
  show ?case
    by (simp add: answered_Nil unanswered_Nil loop_exit_def)
next
  case (Cons x xs)
  obtain response where pf: "process_frame env self (incoming x) (clock_readings x) = (response, self)"
    using process_frame_self [of env self "incoming x" "clock_readings x"]
    by (cases "process_frame env self (incoming x) (clock_readings x)") simp
  show ?case
  proof (cases "send_raises x")
    case None
    with pf Cons.IH show ?thesis
      by (simp add: answered_Cons unanswered_Cons loop_exit_def exchange_events_def)
  next
    case (Some e)
    with pf show ?thesis
      by (simp add: answered_Cons unanswered_Cons loop_exit_def)
  qed
qed

lemma handle_client_eq:
  "handle_client env self ws xs ending =
     (self\<lparr>clients := clients self - {ws}\<rparr>,
      Added ws # (concat (map (exchange_events env self) (answered xs)) @
        map (\<lambda>x. Received (incoming x)) (unanswered xs)) @ [Removed ws],
      except_connection_closed (loop_exit xs ending))"
  by (simp add: handle_client_def serve_loop_eq exchange_events_ignores_clients except_connection_closed_def)

lemma on_wire_exchanges:
  "filter on_wire (concat (map (exchange_events env self) ys)) = concat (map (exchange_events env self) ys)"
  by (induction ys) (simp_all add: exchange_events_def)

lemma mutates_exchanges:
  "filter mutates_clients (concat (map (exchange_events env self) ys)) = []"
  by (induction ys) (simp_all add: exchange_events_def)

lemma on_wire_received:
  "filter on_wire (map (\<lambda>x. Received (incoming x)) ys) = map (\<lambda>x. Received (incoming x)) ys"
  by (induction ys) simp_all

lemma mutates_received:
  "filter mutates_clients (map (\<lambda>x. Received (incoming x)) ys) = []"
  by (induction ys) simp_all

lemma count_removed_exchanges:
  "count_list (concat (map (exchange_events env self) ys)) (Removed ws) = 0"
  by (induction ys) (simp_all add: exchange_events_def)

lemma count_removed_received:
  "count_list (map (\<lambda>x. Received (incoming x)) ys) (Removed ws) = 0"
  by (induction ys) simp_all

text \<open>
  C2. On one connection the handler alternates strictly between reading a frame and writing
  the response to it: what it puts on the wire is, for each turn in order, the frame read
  followed by the encoding of \<^verbatim>\<open>process_frame\<close> of that frame, up to the first
  \<^verbatim>\<open>send\<close> that fails; at most one frame, the one whose response could not be sent,
  stays without a response. When no \<^verbatim>\<open>send\<close> fails, every frame has exactly one
  response, in the order of the frames.
\<close>

theorem one_response_per_frame_in_order:
  "case handle_client env self ws xs ending of
     (self', evs, raised) \<Rightarrow>
       filter on_wire evs =
         concat (map (exchange_events env self) (answered xs)) @
           map (\<lambda>x. Received (incoming x)) (unanswered xs) \<and>
       length (unanswered xs) \<le> 1 \<and>
       ((\<forall>x\<in>set xs. send_raises x = None) \<longrightarrow>
          filter on_wire evs = concat (map (exchange_events env self) xs))"
proof -
  let ?evs = "Added ws # (concat (map (exchange_events env self) (answered xs)) @
        map (\<lambda>x. Received (incoming x)) (unanswered xs)) @ [Removed ws]"
  have wire: "filter on_wire ?evs =
      concat (map (exchange_events env self) (answered xs)) @
           map (\<lambda>x. Received (incoming x)) (unanswered xs)"
    by (simp add: on_wire_exchanges on_wire_received)
  have all: "filter on_wire ?evs = concat (map (exchange_events env self) xs)"
    if "\<forall>x\<in>set xs. send_raises x = None"
    using answered_all [OF that] wire by simp
  show ?thesis
    unfolding handle_client_eq prod.case
    using wire all length_unanswered by blast
qed

theorem one_response_per_frame_in_order_witness:
  "send_raises (example_exchange [1]) = None \<and>
   send_raises (example_exchange []) = None \<and>
   filter on_wire
     (fst (snd (handle_client example_env example_server 3
        [example_exchange [1], example_exchange []] None))) =
     [Received (Binary [1]), Sent ''success'', Received (Binary []), Sent ''error'']"
proof -
  have s1: "send_raises (example_exchange [1]) = None"
    and s2: "send_raises (example_exchange []) = None"
    by (simp_all add: example_exchange_def)
  then have h: "\<forall>x\<in>set [example_exchange [1], example_exchange []]. send_raises x = None"
    by simp
  have "filter on_wire
     (fst (snd (handle_client example_env example_server 3
        [example_exchange [1], example_exchange []] None))) =
     concat (map (exchange_events example_env example_server)
        [example_exchange [1], example_exchange []])"
    by (rule one_response_per_frame_in_order
      [where env = example_env and self = example_server and ws = 3 and ending = None
         and xs = "[example_exchange [1], example_exchange []]",
       unfolded case_prod_beta, THEN conjunct2, THEN conjunct2, THEN mp, OF h])
  also have "\<dots> = [Received (Binary [1]), Sent ''success'', Received (Binary []), Sent ''error'']"
    by (simp add: exchange_events_def example_simps)
  finally show ?thesis
    using s1 s2 by simp
qed

text \<open>
  C7. Whatever ends the handler (the peer closing, a failing read or write, any other
  exception), when it returns the connection is not in \<^verbatim>\<open>self.clients\<close>, the set is
  the one before the call without this connection, and the removal was done once, as the
  last effect of the handler. For a connection that was not in the set before, the set is
  back to what it was, and so is its size. The handler is taken on its own here: what other
  handlers do to the set meanwhile is outside this statement.
\<close>

theorem connection_removed_exactly_once:
  "case handle_client env self ws xs ending of
     (self', evs, raised) \<Rightarrow>
       ws \<notin> clients self' \<and>
       clients self' = clients self - {ws} \<and>
       count_list evs (Removed ws) = 1 \<and>
       last evs = Removed ws \<and>
       (ws \<notin> clients self \<longrightarrow>
          clients self' = clients self \<and> card (clients self') = card (clients self))"
  by (simp add: handle_client_eq count_removed_exchanges count_removed_received)

theorem connection_removed_exactly_once_witness:
  "3 \<notin> clients example_server \<and>
   (case handle_client example_env example_server 3 [example_exchange [1]]
           (Some (Exn OtherException ''connection reset'')) of
      (self', evs, raised) \<Rightarrow>
        clients self' = clients example_server \<and>
        card (clients self') = card (clients example_server) \<and>
        count_list evs (Removed 3) = 1)"
proof -
  have h: "3 \<notin> clients example_server"
    by (simp add: example_server_def)
  with connection_removed_exactly_once
      [where env = example_env and self = example_server and ws = 3
         and xs = "[example_exchange [1]]"
         and ending = "Some (Exn OtherException ''connection reset'')"]
  show ?thesis
    by (simp only: case_prod_beta) simp
qed

text \<open>
  C10. \<^verbatim>\<open>process_frame\<close> returns the server object as it received it, whatever the
  frame and whatever the libraries return or raise; so does the loop. The only updates of
  \<^verbatim>\<open>self.clients\<close> are the two of \<^verbatim>\<open>handle_client\<close>, the first and the last of
  its effects, and the port and the model stay as they were.
\<close>

theorem process_frame_leaves_server_unchanged:
  "snd (process_frame env self m clk) = self \<and>
   fst (serve_loop env self xs ending) = self \<and>
   (case handle_client env self ws xs ending of
      (self', evs, raised) \<Rightarrow>
        filter mutates_clients evs = [Added ws, Removed ws] \<and>
        hd evs = Added ws \<and> last evs = Removed ws \<and>
        model self' = model self \<and> port self' = port self)"
  by (simp add: process_frame_self serve_loop_eq handle_client_eq mutates_exchanges mutates_received)

section \<open>The shape of the responses\<close>

lemma detection_of_shape:
  "\<exists>c x y w h. detection_of nm b =
     Dict [(''className'', Str nm), (''confidence'', Num c), (''x'', Num x), (''y'', Num y),
           (''width'', Num w), (''height'', Num h)]"
  by (cases "xyxyn b") (simp add: detection_of_def)

lemma process_frame_shape:
  "(\<exists>ds tm. fst (process_frame env self m clk) =
        Dict [(''status'', Str ''success''), (''detections'', List ds), (''inference_time'', Num tm)] \<and>
      (\<forall>d\<in>set ds. \<exists>nm c x y w h. d =
         Dict [(''className'', Str nm), (''confidence'', Num c), (''x'', Num x), (''y'', Num y),
               (''width'', Num w), (''height'', Num h)])) \<or>
   (\<exists>msg. fst (process_frame env self m clk) =
      Dict [(''status'', Str ''error''), (''message'', Str msg), (''detections'', List [])])"
proof -
  consider
    (err) e where "fst (process_frame env self m clk) = error_response e"
  | (ok) frame res where "detect env (model self) frame = Inr res"
      "fst (process_frame env self m clk) =
        Dict [(''status'', Str ''success''),
              (''detections'', List (map (\<lambda>b. detection_of (the (names res (cls b))) b) (boxes res))),
              (''inference_time'', Num (snd clk - fst clk))]"
    using process_frame_cases [of env self m clk] by blast
  then show ?thesis
  proof cases
    case err
    then show ?thesis
      by (simp add: error_response_def)
  next
    case ok
    have "\<forall>d\<in>set (map (\<lambda>b. detection_of (the (names res (cls b))) b) (boxes res)).
            \<exists>nm c x y w h. d =
              Dict [(''className'', Str nm), (''confidence'', Num c), (''x'', Num x), (''y'', Num y),
                    (''width'', Num w), (''height'', Num h)]"
      using detection_of_shape by fastforce
    with ok show ?thesis
      by blast
  qed
qed

lemma sent_in_exchanges:
  "Sent t \<in> set (concat (map (exchange_events env self) ys)) \<Longrightarrow>
     \<exists>x\<in>set ys. t = json_dumps env (fst (process_frame env self (incoming x) (clock_readings x)))"
  by (induction ys) (auto simp: exchange_events_def)

lemma sent_by_handle_client:
  assumes "Sent t \<in> set (fst (snd (handle_client env self ws xs ending)))"
  shows "\<exists>x\<in>set xs. t = json_dumps env (fst (process_frame env self (incoming x) (clock_readings x)))"
proof -
  from assms have "Sent t \<in> set (concat (map (exchange_events env self) (answered xs)))"
    by (auto simp: handle_client_eq)
  then obtain x where "x \<in> set (answered xs)"
    "t = json_dumps env (fst (process_frame env self (incoming x) (clock_readings x)))"
    using sent_in_exchanges by blast
  moreover have "set (answered xs) \<subseteq> set xs"
    by (auto simp: answered_def dest: set_takeWhileD)
  ultimately show ?thesis by blast
qed

text \<open>
  C6, as the code has it. Every response the handler sends is the encoding of a dict with
  the keys \<open>status\<close>, \<open>detections\<close>, \<open>inference_time\<close> (status "success") or
  \<open>status\<close>, \<open>message\<close>, \<open>detections\<close> (status "error", no detections), and each
  detection entry is keyed \<open>className\<close>, \<open>confidence\<close>, \<open>x\<close>, \<open>y\<close>,
  \<open>width\<close>, \<open>height\<close>, in that order: the class name is under \<open>className\<close>, a
  string, and the five others are numbers.
\<close>

theorem sent_responses_use_the_field_names_of_the_code:
  "case handle_client env self ws xs ending of
     (self', evs, raised) \<Rightarrow>
       \<forall>t. Sent t \<in> set evs \<longrightarrow>
         (\<exists>r. t = json_dumps env r \<and>
            ((\<exists>ds tm. r = Dict [(''status'', Str ''success''), (''detections'', List ds),
                                (''inference_time'', Num tm)] \<and>
                (\<forall>d\<in>set ds. \<exists>nm c x y w h. d =
                   Dict [(''className'', Str nm), (''confidence'', Num c), (''x'', Num x),
                         (''y'', Num y), (''width'', Num w), (''height'', Num h)])) \<or>
             (\<exists>msg. r = Dict [(''status'', Str ''error''), (''message'', Str msg),
                              (''detections'', List [])])))"
proof -
  have "\<exists>r. t = json_dumps env r \<and>
            ((\<exists>ds tm. r = Dict [(''status'', Str ''success''), (''detections'', List ds),
                                (''inference_time'', Num tm)] \<and>
                (\<forall>d\<in>set ds. \<exists>nm c x y w h. d =
                   Dict [(''className'', Str nm), (''confidence'', Num c), (''x'', Num x),
                         (''y'', Num y), (''width'', Num w), (''height'', Num h)])) \<or>
             (\<exists>msg. r = Dict [(''status'', Str ''error''), (''message'', Str msg),
                              (''detections'', List [])]))"
    if "Sent t \<in> set (fst (snd (handle_client env self ws xs ending)))" for t
  proof -
    from sent_by_handle_client [OF that] obtain x where
      "x \<in> set xs" and
      t: "t = json_dumps env (fst (process_frame env self (incoming x) (clock_readings x)))"
      by blast
    from process_frame_shape [of env self "incoming x" "clock_readings x"] t show ?thesis
      by blast
  qed
  then show ?thesis
    by (simp add: case_prod_beta)
qed

theorem sent_responses_use_the_field_names_of_the_code_witness:
  "Sent ''success'' \<in>
     set (fst (snd (handle_client example_env example_server 3 [example_exchange [1]] None))) \<and>
   (\<exists>r. ''success'' = json_dumps example_env r \<and>
      ((\<exists>ds tm. r = Dict [(''status'', Str ''success''), (''detections'', List ds),
                          (''inference_time'', Num tm)] \<and>
          (\<forall>d\<in>set ds. \<exists>nm c x y w h. d =
             Dict [(''className'', Str nm), (''confidence'', Num c), (''x'', Num x),
                   (''y'', Num y), (''width'', Num w), (''height'', Num h)])) \<or>
       (\<exists>msg. r = Dict [(''status'', Str ''error''), (''message'', Str msg),
                        (''detections'', List [])])))"
proof -
  have h: "Sent ''success'' \<in>
     set (fst (snd (handle_client example_env example_server 3 [example_exchange [1]] None)))"
    by (simp add: example_simps)
  have every: "\<forall>t. Sent t \<in>
          set (fst (snd (handle_client example_env example_server 3 [example_exchange [1]] None))) \<longrightarrow>
     (\<exists>r. t = json_dumps example_env r \<and>
      ((\<exists>ds tm. r = Dict [(''status'', Str ''success''), (''detections'', List ds),
                          (''inference_time'', Num tm)] \<and>
          (\<forall>d\<in>set ds. \<exists>nm c x y w h. d =
             Dict [(''className'', Str nm), (''confidence'', Num c), (''x'', Num x),
                   (''y'', Num y), (''width'', Num w), (''height'', Num h)])) \<or>
       (\<exists>msg. r = Dict [(''status'', Str ''error''), (''message'', Str msg),
                        (''detections'', List [])])))"
    using sent_responses_use_the_field_names_of_the_code
      [where env = example_env and self = example_server and ws = 3
         and xs = "[example_exchange [1]]" and ending = None]
    by (simp only: case_prod_beta)
  from h every [rule_format, OF h] show ?thesis
    by (rule conjI)
qed

text \<open>
  C6 as written names the class-name field \<open>label\<close>. On the frame with two objects the
  entries have no such key.
\<close>

theorem detection_label_key_counterexample:
  "map keys (detections_of (fst (process_frame example_env example_server (Binary [1]) (0, 1)))) =
     [[''className'', ''confidence'', ''x'', ''y'', ''width'', ''height''],
      [''className'', ''confidence'', ''x'', ''y'', ''width'', ''height'']] \<and>
   map (field ''label'') (detections_of (fst (process_frame example_env example_server (Binary [1]) (0, 1)))) =
     [None, None]"
  by (simp add: example_simps)

text \<open>
  C5 as written says that a negative width or height is clamped to zero. For the box with
  corners \<open>(1/2, 1/2, 1/4, 1/4)\<close> the response carries width and height \<open>-1/4\<close>.
\<close>

theorem negative_width_counterexample:
  "map (num_field ''width'')
     (detections_of (fst (process_frame example_env example_server (Binary [1, 2]) (0, 1)))) =
     [Some (- (1/4))] \<and>
   map (num_field ''height'')
     (detections_of (fst (process_frame example_env example_server (Binary [1, 2]) (0, 1)))) =
     [Some (- (1/4))] \<and>
   (- (1/4) :: real) < 0"
  by (simp add: example_simps)

text \<open>
  C5, as the code has it. In a success response the entry of each box carries the width
  \<open>x2 - x1\<close> and the height \<open>y2 - y1\<close> as computed, without clamping: the width is
  negative exactly when \<open>x2 < x1\<close>, the height exactly when \<open>y2 < y1\<close>. (For the
  signs the numbers are taken in an ordered group.)
\<close>

theorem width_and_height_are_not_clamped:
  fixes env :: "('pil, 'arr, 'model, 'n::ordered_ab_group_add) env"
  assumes "field ''status'' (fst (process_frame env self m clk)) = Some (Str ''success'')"
  shows "\<exists>frame res.
           decode env m = Inr frame \<and> detect env (model self) frame = Inr res \<and>
           length (detections_of (fst (process_frame env self m clk))) = length (boxes res) \<and>
           (\<forall>i<length (boxes res).
              case xyxyn (boxes res ! i) of (x1, y1, x2, y2) \<Rightarrow>
                \<exists>w h.
                  num_field ''width'' (detections_of (fst (process_frame env self m clk)) ! i) = Some w \<and>
                  num_field ''height'' (detections_of (fst (process_frame env self m clk)) ! i) = Some h \<and>
                  w = x2 - x1 \<and> h = y2 - y1 \<and>
                  (w < 0 \<longleftrightarrow> x2 < x1) \<and> (h < 0 \<longleftrightarrow> y2 < y1))"
proof -
  from process_frame_success [OF assms] obtain frame res where
    d: "decode env m = Inr frame" "detect env (model self) frame = Inr res" and
    r: "fst (process_frame env self m clk) =
          Dict [(''status'', Str ''success''),
                (''detections'', List (map (\<lambda>b. detection_of (the (names res (cls b))) b) (boxes res))),
                (''inference_time'', Num (snd clk - fst clk))]"
    by blast
  let ?ds = "map (\<lambda>b. detection_of (the (names res (cls b))) b) (boxes res)"
  have ds: "detections_of (fst (process_frame env self m clk)) = ?ds"
    by (simp add: r)
  have each: "case xyxyn (boxes res ! i) of (x1, y1, x2, y2) \<Rightarrow>
                \<exists>w h. num_field ''width'' (?ds ! i) = Some w \<and>
                  num_field ''height'' (?ds ! i) = Some h \<and>
                  w = x2 - x1 \<and> h = y2 - y1 \<and>
                  (w < 0 \<longleftrightarrow> x2 < x1) \<and> (h < 0 \<longleftrightarrow> y2 < y1)"
    if "i < length (boxes res)" for i
  proof -
    obtain x1 y1 x2 y2 where c: "xyxyn (boxes res ! i) = (x1, y1, x2, y2)"
      by (cases "xyxyn (boxes res ! i)") auto
    from that have nth: "?ds ! i = detection_of (the (names res (cls (boxes res ! i)))) (boxes res ! i)"
      by simp
    show ?thesis
      unfolding nth using field_detection_of [OF c] c by simp
  qed
  show ?thesis
    unfolding ds using d each by (intro exI [of _ frame] exI [of _ res]) simp
qed

theorem width_and_height_are_not_clamped_witness:
  "field ''status'' (fst (process_frame example_env example_server (Binary [1, 2]) (0, 1))) =
     Some (Str ''success'') \<and>
   length (detections_of (fst (process_frame example_env example_server (Binary [1, 2]) (0, 1)))) = 1 \<and>
   (\<exists>w h.
      num_field ''width''
        (detections_of (fst (process_frame example_env example_server (Binary [1, 2]) (0, 1))) ! 0) =
        Some w \<and>
      num_field ''height''
        (detections_of (fst (process_frame example_env example_server (Binary [1, 2]) (0, 1))) ! 0) =
        Some h \<and>
      w = 1/4 - 1/2 \<and> h = 1/4 - 1/2 \<and> w < 0 \<and> h < 0)"
proof -
  let ?r = "fst (process_frame example_env example_server (Binary [1, 2]) (0, 1))"
  have h: "field ''status'' ?r = Some (Str ''success'')"
    by (simp add: example_simps)
  from width_and_height_are_not_clamped [OF h] obtain frame res where
    dec: "decode example_env (Binary [1, 2]) = Inr frame" and
    det: "detect example_env (model example_server) frame = Inr res" and
    len: "length (detections_of ?r) = length (boxes res)" and
    each: "\<forall>i<length (boxes res).
              case xyxyn (boxes res ! i) of (x1, y1, x2, y2) \<Rightarrow>
                \<exists>w h.
                  num_field ''width'' (detections_of ?r ! i) = Some w \<and>
                  num_field ''height'' (detections_of ?r ! i) = Some h \<and>
                  w = x2 - x1 \<and> h = y2 - y1 \<and>
                  (w < 0 \<longleftrightarrow> x2 < x1) \<and> (h < 0 \<longleftrightarrow> y2 < y1)"
    by (elim exE conjE)
  from dec have "frame = [1, 2]"
    by (simp add: decode_def example_env_def)
  with det have res: "res = example_results_reversed"
    by (simp add: detect_def example_env_def)
  from len have l: "length (detections_of ?r) = 1"
    by (simp add: res example_results_reversed_def)
  from each [rule_format, of 0] have
    "\<exists>w h.
      num_field ''width'' (detections_of ?r ! 0) = Some w \<and>
      num_field ''height'' (detections_of ?r ! 0) = Some h \<and>
      w = 1/4 - 1/2 \<and> h = 1/4 - 1/2 \<and> w < 0 \<and> h < 0"
    by (simp add: res example_results_reversed_def del: detections_of.simps num_field.simps)
  with h l show ?thesis
    by (intro conjI) assumption+
qed

section \<open>A frame that does not decode\<close>

text \<open>
  C4 as written says that the message of the error response is never empty. The message is
  \<^verbatim>\<open>str(e)\<close> as it comes (line 107): for an exception without text the response
  carries the empty string.
\<close>

theorem nonempty_message_counterexample:
  "decode example_env_no_text (Binary []) = Inl (Exn OtherException []) \<and>
   process_frame example_env_no_text example_server (Binary []) (0, 1) =
     (Dict [(''status'', Str ''error''), (''message'', Str []), (''detections'', List [])],
      example_server)"
  by (simp add: example_env_no_text_def example_simps)

text \<open>
  C4, as the code has it. When decoding a frame raises an exception \<open>e\<close>, the response
  has status "error", the message \<^verbatim>\<open>str(e)\<close>, whatever that text is, and no
  detections. The connection stays in use: once that response is sent, the loop reads and
  processes the next frames of the same connection exactly as it would have without the
  failed frame, with the server unchanged.
\<close>

theorem undecodable_frame_is_answered_and_the_loop_goes_on:
  assumes "decode env (incoming x) = Inl e"
      and "send_raises x = None"
  shows "fst (process_frame env self (incoming x) (clock_readings x)) =
           Dict [(''status'', Str ''error''), (''message'', Str (exn_str e)),
                 (''detections'', List [])] \<and>
         serve_loop env self (x # xs) ending =
           (case serve_loop env self xs ending of
              (self', evs, raised) \<Rightarrow>
                (self',
                 Received (incoming x) #
                 Sent (json_dumps env
                   (Dict [(''status'', Str ''error''), (''message'', Str (exn_str e)),
                          (''detections'', List [])])) # evs,
                 raised)) \<and>
         handle_client env self ws (x # xs) ending =
           (case handle_client env self ws xs ending of
              (self', evs, raised) \<Rightarrow>
                (self',
                 Added ws # Received (incoming x) #
                 Sent (json_dumps env
                   (Dict [(''status'', Str ''error''), (''message'', Str (exn_str e)),
                          (''detections'', List [])])) # tl evs,
                 raised))"
proof -
  from assms(1) have r: "fst (process_frame env self (incoming x) (clock_readings x)) =
      Dict [(''status'', Str ''error''), (''message'', Str (exn_str e)), (''detections'', List [])]"
    by (simp add: try_block_decode_fails process_frame_error error_response_def)
  have ans: "answered (x # xs) = x # answered xs" "unanswered (x # xs) = unanswered xs"
    using assms(2) by (simp_all add: answered_Cons unanswered_Cons)
  have ex: "loop_exit (x # xs) ending = loop_exit xs ending"
    by (simp add: loop_exit_def ans)
  have loop: "serve_loop env self (x # xs) ending =
             (case serve_loop env self xs ending of
                (self', evs, raised) \<Rightarrow>
                  (self',
                   Received (incoming x) #
                   Sent (json_dumps env
                     (Dict [(''status'', Str ''error''), (''message'', Str (exn_str e)),
                            (''detections'', List [])])) # evs,
                   raised))"
    by (simp add: serve_loop_eq ans ex exchange_events_def r)
  have hc: "handle_client env self ws (x # xs) ending =
             (case handle_client env self ws xs ending of
                (self', evs, raised) \<Rightarrow>
                  (self',
                   Added ws # Received (incoming x) #
                   Sent (json_dumps env
                     (Dict [(''status'', Str ''error''), (''message'', Str (exn_str e)),
                            (''detections'', List [])])) # tl evs,
                   raised))"
    by (simp add: handle_client_eq ans ex exchange_events_def r)
  from r loop hc show ?thesis
    by (intro conjI)
qed

theorem undecodable_frame_is_answered_and_the_loop_goes_on_witness:
  "decode example_env (incoming (example_exchange [])) =
     Inl (Exn OtherException ''cannot identify image file'') \<and>
   send_raises (example_exchange []) = None \<and>
   fst (process_frame example_env example_server (Binary []) (0, 1)) =
     Dict [(''status'', Str ''error''), (''message'', Str ''cannot identify image file''),
           (''detections'', List [])] \<and>
   handle_client example_env example_server 3 [example_exchange [], example_exchange [1]] None =
     (example_server,
      [Added 3, Received (Binary []), Sent ''error'', Received (Binary [1]), Sent ''success'',
       Removed 3],
      None)"
proof -
  have h1: "decode example_env (incoming (example_exchange [])) =
     Inl (Exn OtherException ''cannot identify image file'')"
    by (simp add: decode_def example_env_def example_exchange_def)
  have h2: "send_raises (example_exchange []) = None"
    by (simp add: example_exchange_def)
  have tail: "handle_client example_env example_server 3 [example_exchange [1]] None =
      (example_server, [Added 3, Received (Binary [1]), Sent ''success'', Removed 3], None)"
    by (simp add: example_simps)
  note inst = undecodable_frame_is_answered_and_the_loop_goes_on [OF h1 h2,
      where self = example_server and xs = "[example_exchange [1]]" and ending = None and ws = 3]
  from inst [THEN conjunct1] have
    r: "fst (process_frame example_env example_server (Binary []) (0, 1)) =
     Dict [(''status'', Str ''error''), (''message'', Str ''cannot identify image file''),
           (''detections'', List [])]"
    by (simp add: example_exchange_def)
  from inst [THEN conjunct2, THEN conjunct2] have
    hc: "handle_client example_env example_server 3 [example_exchange [], example_exchange [1]] None =
     (example_server,
      [Added 3, Received (Binary []), Sent ''error'', Received (Binary [1]), Sent ''success'',
       Removed 3],
      None)"
    unfolding tail by (simp add: example_env_def example_dumps_def example_exchange_def)
  from h1 h2 r hc show ?thesis
    by (intro conjI)
qed

section \<open>The size limit\<close>

lemma transport_within_limit:
  "transport limit xs ending = (ys, e) \<Longrightarrow> \<forall>y\<in>set ys. message_size (incoming y) \<le> limit"
  by (induction xs arbitrary: ys) (auto split: if_splits prod.splits)

lemma transport_stops_at_oversize:
  "limit < message_size (incoming x) \<Longrightarrow>
     transport limit (pre @ x # rest) ending = transport limit pre (Some message_too_big)"
  by (induction pre) (auto split: prod.splits)

lemma received_in_exchanges:
  "Received m \<in> set (concat (map (exchange_events env self) ys)) \<Longrightarrow> \<exists>x\<in>set ys. m = incoming x"
  by (induction ys) (auto simp: exchange_events_def)

lemma received_by_handle_client:
  assumes "Received m \<in> set (fst (snd (handle_client env self ws xs ending)))"
  shows "\<exists>x\<in>set xs. m = incoming x"
proof -
  have a: "set (answered xs) \<subseteq> set xs"
    by (auto simp: answered_def dest: set_takeWhileD)
  have u: "set (unanswered xs) \<subseteq> set xs"
    by (auto simp: unanswered_def dest: in_set_takeD set_dropWhileD)
  from assms consider
    "Received m \<in> set (concat (map (exchange_events env self) (answered xs)))"
    | "Received m \<in> set (map (\<lambda>x. Received (incoming x)) (unanswered xs))"
    by (auto simp: handle_client_eq)
  then show ?thesis
  proof cases
    case 1
    from received_in_exchanges [OF 1] a show ?thesis by blast
  next
    case 2
    with u show ?thesis by auto
  qed
qed

text \<open>
  C8. The limit handed to the transport is 10 MiB. The handler, and so
  \<^verbatim>\<open>process_frame\<close>, only ever gets frames of at most that size. A larger frame ends
  the connection as a closed connection does: the handler sees the frames before it and
  then ConnectionClosed, it neither reads the frame nor sends a response for it, and
  nothing after it is processed.
\<close>

theorem oversized_frame_never_reaches_process_frame:
  "max_size = 10 * 2 ^ 20 \<and>
   (case serve env self ws peer_messages peer_ending of
      (self', evs, raised) \<Rightarrow> \<forall>m. Received m \<in> set evs \<longrightarrow> message_size m \<le> max_size) \<and>
   (max_size < message_size (incoming x) \<longrightarrow>
      serve env self ws (pre @ x # rest) peer_ending = serve env self ws pre (Some message_too_big) \<and>
      serve env self ws (x # rest) peer_ending =
        (self\<lparr>clients := clients self - {ws}\<rparr>, [Added ws, Removed ws], None))"
proof -
  have size: "max_size = 10 * 2 ^ 20"
    by (simp add: max_size_def)
  obtain ys e where t: "transport max_size peer_messages peer_ending = (ys, e)"
    by (cases "transport max_size peer_messages peer_ending") auto
  have recv: "message_size m \<le> max_size"
    if "Received m \<in> set (fst (snd (serve env self ws peer_messages peer_ending)))" for m
  proof -
    from that t have "Received m \<in> set (fst (snd (handle_client env self ws ys e)))"
      by (simp add: serve_def)
    then obtain y where "y \<in> set ys" "m = incoming y"
      using received_by_handle_client by blast
    with transport_within_limit [OF t] show ?thesis
      by blast
  qed
  have over: "serve env self ws (pre @ x # rest) peer_ending = serve env self ws pre (Some message_too_big) \<and>
      serve env self ws (x # rest) peer_ending =
        (self\<lparr>clients := clients self - {ws}\<rparr>, [Added ws, Removed ws], None)"
    if "max_size < message_size (incoming x)"
    using that
    by (simp add: serve_def transport_stops_at_oversize handle_client_eq answered_Nil
        unanswered_Nil loop_exit_def except_connection_closed_def message_too_big_def)
  from size recv over show ?thesis
    by (simp add: case_prod_beta)
qed

theorem oversized_frame_never_reaches_process_frame_witness:
  "max_size < message_size (incoming example_oversized) \<and>
   serve example_env example_server 3 [example_exchange [1], example_oversized, example_exchange [1]] None =
     (example_server, [Added 3, Received (Binary [1]), Sent ''success'', Removed 3], None)"
proof -
  have h: "max_size < message_size (incoming example_oversized)"
    by (simp add: max_size_def example_oversized_def example_exchange_def)
  have small: "transport max_size [example_exchange [1]] (Some message_too_big) =
      ([example_exchange [1]], Some message_too_big)"
    by (simp add: max_size_def example_exchange_def)
  note inst = oversized_frame_never_reaches_process_frame
      [where env = example_env and self = example_server and ws = 3 and peer_ending = None
         and x = example_oversized and pre = "[example_exchange [1]]"
         and rest = "[example_exchange [1]]",
       THEN conjunct2, THEN conjunct2, THEN mp, OF h, THEN conjunct1]
  have "serve example_env example_server 3
          [example_exchange [1], example_oversized, example_exchange [1]] None =
        serve example_env example_server 3 [example_exchange [1]] (Some message_too_big)"
    using inst by simp
  also have "\<dots> = (example_server, [Added 3, Received (Binary [1]), Sent ''success'', Removed 3], None)"
    unfolding serve_def small by (simp add: example_simps message_too_big_def)
  finally show ?thesis
    using h by (rule conjI [rotated])
qed

end
